theory Spec2Isabelle
  imports Complex_Main "HOL-Library.Log_Nat"
begin

section \<open>Values of the table library\<close>

text \<open>
  \<^verbatim>\<open>app.py\<close> is a script over data frames. A data frame is modelled as the list of its
  rows, a column (a series) as the list of its cells, and a missing cell (NaN, NaT, an
  empty CSV field) as \<open>None\<close>. Numbers are rationals. The two percentage shares are
  computed as the script computes them, in double precision with its rounding; the mean
  rating is kept exact.

  A timestamp is what the library stores: an integer count of nanoseconds since
  1970-01-01T00:00 and a zone marker (\<open>None\<close> for a timezone-naive value).
\<close>

record timestamp =
  ns :: int
  tz :: "string option"

datatype exc =
  FileNotFoundError | ParserError | EmptyDataError | TypeError | ValueError | StreamlitAPIException

fun exc_name :: "exc \<Rightarrow> string" where
  "exc_name FileNotFoundError = ''FileNotFoundError''"
| "exc_name ParserError = ''ParserError''"
| "exc_name EmptyDataError = ''EmptyDataError''"
| "exc_name TypeError = ''TypeError''"
| "exc_name ValueError = ''ValueError''"
| "exc_name StreamlitAPIException = ''StreamlitAPIException''"

text \<open>A row of the CSV file as \<^verbatim>\<open>read_csv\<close> hands it over: text cells, some missing.\<close>

record raw_review =
  raw_published_date :: "string option"
  raw_rating :: "string option"
  raw_helpful_votes :: "string option"
  raw_published_platform :: "string option"
  raw_type :: "string option"
  raw_title :: "string option"
  raw_text :: "string option"

text \<open>A row after \<^verbatim>\<open>load_reviews\<close>. The columns \<^verbatim>\<open>type\<close> and \<^verbatim>\<open>text\<close> are named
  \<open>review_type\<close> and \<open>review_text\<close> here.\<close>

record review =
  published_date :: "timestamp option"
  rating :: "rat option"
  helpful_votes :: "rat option"
  published_platform :: "string option"
  review_type :: "string option"
  title :: "string option"
  review_text :: "string option"

text \<open>
  The library's parsers are parameters of the model, so every theorem below holds for
  whatever they accept:
  \<^item> \<open>parse_table\<close> turns the text of a file into rows, or fails with the parser's
    exception;
  \<^item> \<open>parse_datetime\<close> reads a date: the wall-clock nanoseconds and, for a timezone-aware
    text, the offset from UTC in nanoseconds;
  \<^item> \<open>parse_numeric\<close> reads a number.
\<close>

record pandas =
  parse_table :: "string \<Rightarrow> exc + raw_review list"
  parse_datetime :: "string \<Rightarrow> (int \<times> int option) option"
  parse_numeric :: "string \<Rightarrow> rat option"

type_synonym filesystem = "string \<rightharpoonup> string"

section \<open>The loader\<close>

definition read_csv :: "pandas \<Rightarrow> filesystem \<Rightarrow> string \<Rightarrow> exc + raw_review list" where
  "read_csv pd fs path =
     (case fs path of
        None \<Rightarrow> Inl FileNotFoundError
      | Some contents \<Rightarrow> parse_table pd contents)"

text \<open>\<^verbatim>\<open>pd.to_datetime(col, errors="coerce", utc=True)\<close>: a missing or unparseable cell is
  NaT, an aware value is converted to UTC, a naive one is taken as UTC.\<close>

definition to_datetime_utc :: "pandas \<Rightarrow> string option list \<Rightarrow> timestamp option list" where
  "to_datetime_utc pd col =
     map (\<lambda>c. case c of
            None \<Rightarrow> None
          | Some s \<Rightarrow>
              (case parse_datetime pd s of
                 None \<Rightarrow> None
               | Some (wall, None) \<Rightarrow> Some \<lparr>ns = wall, tz = Some ''UTC''\<rparr>
               | Some (wall, Some offset) \<Rightarrow> Some \<lparr>ns = wall - offset, tz = Some ''UTC''\<rparr>)) col"

definition is_naive :: "timestamp option \<Rightarrow> bool" where
  "is_naive c = (case c of None \<Rightarrow> False | Some t \<Rightarrow> tz t = None)"

text \<open>\<^verbatim>\<open>.dt.tz_convert(None)\<close>: converts to UTC and removes the zone marker; the library
  raises \<^verbatim>\<open>TypeError\<close> on timezone-naive values.\<close>

definition tz_convert_None :: "timestamp option list \<Rightarrow> exc + timestamp option list" where
  "tz_convert_None col =
     (if list_ex is_naive col then Inl TypeError
      else Inr (map (map_option (\<lambda>t. t\<lparr>tz := None\<rparr>)) col))"

text \<open>\<^verbatim>\<open>pd.to_numeric(col, errors="coerce")\<close>.\<close>

definition to_numeric :: "pandas \<Rightarrow> string option list \<Rightarrow> rat option list" where
  "to_numeric pd col = map (\<lambda>c. case c of None \<Rightarrow> None | Some s \<Rightarrow> parse_numeric pd s) col"

definition fillna :: "'a option list \<Rightarrow> 'a \<Rightarrow> 'a option list" where
  "fillna col v = map (\<lambda>c. case c of None \<Rightarrow> Some v | Some x \<Rightarrow> Some x) col"

text \<open>The five column assignments of \<^verbatim>\<open>load_reviews\<close> put the new columns beside the
  untouched \<^verbatim>\<open>title\<close> and \<^verbatim>\<open>text\<close>.\<close>

fun assign_columns ::
  "raw_review list \<Rightarrow> timestamp option list \<Rightarrow> rat option list \<Rightarrow> rat option list \<Rightarrow>
   string option list \<Rightarrow> string option list \<Rightarrow> review list" where
  "assign_columns (r # df) (d # ds) (x # xs) (h # hs) (p # ps) (t # ts) =
     \<lparr>published_date = d, rating = x, helpful_votes = h, published_platform = p,
      review_type = t, title = raw_title r, review_text = raw_text r\<rparr>
     # assign_columns df ds xs hs ps ts"
| "assign_columns _ _ _ _ _ _ = []"

definition load_reviews :: "pandas \<Rightarrow> filesystem \<Rightarrow> string \<Rightarrow> exc + review list" where
  "load_reviews pd fs path =
     (case read_csv pd fs path of
        Inl e \<Rightarrow> Inl e
      | Inr df \<Rightarrow>
          (case tz_convert_None (to_datetime_utc pd (map raw_published_date df)) of
             Inl e \<Rightarrow> Inl e
           | Inr dates \<Rightarrow>
               Inr (assign_columns df dates
                      (to_numeric pd (map raw_rating df))
                      (fillna (to_numeric pd (map raw_helpful_votes df)) 0)
                      (fillna (map raw_published_platform df) ''Unknown'')
                      (fillna (map raw_type df) ''Unknown''))))"

section \<open>The filter\<close>

text \<open>Comparisons of a column with a scalar give a boolean mask; a missing cell compares
  false. Timestamps compare by their nanosecond counts.\<close>

definition ge_scalar :: "timestamp option list \<Rightarrow> timestamp \<Rightarrow> bool list" where
  "ge_scalar col t = map (\<lambda>c. case c of None \<Rightarrow> False | Some d \<Rightarrow> ns d \<ge> ns t) col"

definition le_scalar :: "timestamp option list \<Rightarrow> timestamp \<Rightarrow> bool list" where
  "le_scalar col t = map (\<lambda>c. case c of None \<Rightarrow> False | Some d \<Rightarrow> ns d \<le> ns t) col"

definition isin :: "'a option list \<Rightarrow> 'a list \<Rightarrow> bool list" where
  "isin col vals = map (\<lambda>c. case c of None \<Rightarrow> False | Some v \<Rightarrow> v \<in> set vals) col"

text \<open>\<^verbatim>\<open>Series.between(left, right)\<close> is \<^verbatim>\<open>(left <= s) & (s <= right)\<close>.\<close>

definition between_series :: "rat option list \<Rightarrow> rat \<Rightarrow> rat \<Rightarrow> bool list" where
  "between_series col left right =
     map (\<lambda>c. case c of None \<Rightarrow> False | Some x \<Rightarrow> left \<le> x \<and> x \<le> right) col"

definition and_mask :: "bool list \<Rightarrow> bool list \<Rightarrow> bool list" where
  "and_mask a b = map2 (\<and>) a b"

text \<open>\<^verbatim>\<open>df[mask]\<close>: the rows whose mask entry is true, in their order.\<close>

definition getitem :: "'r list \<Rightarrow> bool list \<Rightarrow> 'r list" where
  "getitem df keep = map fst (filter snd (zip df keep))"

definition filtered ::
  "review list \<Rightarrow> timestamp \<Rightarrow> timestamp \<Rightarrow> string list \<Rightarrow> string list \<Rightarrow> int \<times> int \<Rightarrow>
   review list" where
  "filtered data start_date end_date selected_platforms selected_types rating_range =
     getitem data
       (and_mask
         (and_mask
           (and_mask
             (and_mask (ge_scalar (map published_date data) start_date)
                       (le_scalar (map published_date data) end_date))
             (isin (map published_platform data) selected_platforms))
           (isin (map review_type data) selected_types))
         (between_series (map rating data)
            (of_int (fst rating_range)) (of_int (snd rating_range))))"

text \<open>The filter as the specification words it: a row is kept when it passes every one of
  the four tests, and a row with a missing value fails the test on that value.\<close>

definition satisfies_all ::
  "review \<Rightarrow> timestamp \<Rightarrow> timestamp \<Rightarrow> string list \<Rightarrow> string list \<Rightarrow> int \<times> int \<Rightarrow> bool" where
  "satisfies_all r start_date end_date platforms types rng =
     ((case published_date r of
         None \<Rightarrow> False
       | Some d \<Rightarrow> ns start_date \<le> ns d \<and> ns d \<le> ns end_date) \<and>
      (case published_platform r of None \<Rightarrow> False | Some p \<Rightarrow> p \<in> set platforms) \<and>
      (case review_type r of None \<Rightarrow> False | Some t \<Rightarrow> t \<in> set types) \<and>
      (case rating r of
         None \<Rightarrow> False
       | Some x \<Rightarrow> of_int (fst rng) \<le> x \<and> x \<le> of_int (snd rng)))"

section \<open>The aggregates\<close>

definition total_reviews :: "review list \<Rightarrow> nat" where
  "total_reviews f = length f"

text \<open>\<^verbatim>\<open>Series.mean()\<close> skips missing cells: the sum of the present cells over their
  number, and NaN (\<open>None\<close>) when no cell is present.\<close>

definition count_series :: "'a option list \<Rightarrow> nat" where
  "count_series col = length (filter (\<lambda>c. c \<noteq> None) col)"

definition sum_series :: "rat option list \<Rightarrow> rat" where
  "sum_series col = sum_list (map (\<lambda>c. case c of None \<Rightarrow> 0 | Some x \<Rightarrow> x) col)"

definition mean :: "rat option list \<Rightarrow> rat option" where
  "mean col =
     (if count_series col = 0 then None
      else Some (sum_series col / of_nat (count_series col)))"

definition avg_rating :: "review list \<Rightarrow> rat option" where
  "avg_rating f = mean (map rating f)"

subsection \<open>Double precision\<close>

text \<open>
  The script's \<^verbatim>\<open>/\<close> and \<^verbatim>\<open>*\<close> on Python numbers give IEEE 754 doubles: the exact
  result rounded to the nearest number with a significand of 53 bits, a tie going to the
  even significand. \<open>float64 x\<close> is the value of that double, as a rational. The exponent
  range is not modelled: the shares lie between \<open>1 / total\<close> and 100, far inside it.
\<close>

definition round_half_even :: "rat \<Rightarrow> int" where
  "round_half_even q =
     (let n = \<lfloor>q\<rfloor>; r = q - of_int n
      in if r < 1 / 2 then n else if 1 / 2 < r then n + 1 else if even n then n else n + 1)"

text \<open>The exponent \<open>e\<close> of a positive number, \<open>2 ^ e \<le> x < 2 ^ (e + 1)\<close>, from the bit
  lengths of its numerator and its denominator.\<close>

definition binary_exponent :: "rat \<Rightarrow> int" where
  "binary_exponent x =
     (case quotient_of x of
        (a, b) \<Rightarrow> (let k = bitlen a - bitlen b in if 2 powi k \<le> x then k else k - 1))"

definition float64 :: "rat \<Rightarrow> rat" where
  "float64 x =
     (if x = 0 then 0
      else (let u = 2 powi (binary_exponent \<bar>x\<bar> - 52)
            in of_int (round_half_even (x / u)) * u))"

subsection \<open>The shares\<close>

text \<open>\<^verbatim>\<open>count / total_reviews * 100\<close>: the quotient of the two integers rounded to a double,
  then its product with 100 rounded to a double.\<close>

definition positive_share :: "review list \<Rightarrow> rat" where
  "positive_share f =
     (if total_reviews f \<noteq> 0
      then float64 (float64 (of_nat (length (getitem f (isin (map rating f) [4, 5])))
                              / of_nat (total_reviews f)) * 100)
      else 0)"

definition negative_share :: "review list \<Rightarrow> rat" where
  "negative_share f =
     (if total_reviews f \<noteq> 0
      then float64 (float64 (of_nat (length (getitem f (isin (map rating f) [1, 2])))
                              / of_nat (total_reviews f)) * 100)
      else 0)"

text \<open>What a metric card shows: a fixed text, a count printed with thousands separators
  (\<^verbatim>\<open>f"{n:,}"\<close>), or a number printed with a given number of decimals
  (\<^verbatim>\<open>f"{x:.2f}"\<close>; a NaN prints as \<^verbatim>\<open>nan\<close>).\<close>

datatype shown = Str string | Count nat | Fixed nat "rat option"

definition average_rating_metric :: "review list \<Rightarrow> shown" where
  "average_rating_metric f =
     (if total_reviews f \<noteq> 0 then Fixed 2 (avg_rating f) else Str ''N/A'')"

subsection \<open>The rating histogram\<close>

fun dropna_series :: "'a option list \<Rightarrow> 'a list" where
  "dropna_series [] = []"
| "dropna_series (None # col) = dropna_series col"
| "dropna_series (Some x # col) = x # dropna_series col"

text \<open>\<^verbatim>\<open>groupby(key, dropna=False).size()\<close>: one group per distinct key, the keys in
  ascending order and the group of the missing key last.\<close>

definition groupby_size :: "rat option list \<Rightarrow> (rat option \<times> nat) list" where
  "groupby_size col =
     map (\<lambda>v. (Some v, count_list col (Some v))) (sort (remdups (dropna_series col)))
     @ (if None \<in> set col then [(None, count_list col None)] else [])"

text \<open>\<^verbatim>\<open>sort_values("rating")\<close>: ascending, missing keys last.\<close>

fun na_last_le :: "rat option \<Rightarrow> rat option \<Rightarrow> bool" where
  "na_last_le _ None = True"
| "na_last_le None (Some _) = False"
| "na_last_le (Some a) (Some b) = (a \<le> b)"

fun insert_by_rating :: "rat option \<times> nat \<Rightarrow> (rat option \<times> nat) list \<Rightarrow> (rat option \<times> nat) list" where
  "insert_by_rating g [] = [g]"
| "insert_by_rating g (h # hs) =
     (if na_last_le (fst g) (fst h) then g # h # hs else h # insert_by_rating g hs)"

definition sort_values_rating :: "(rat option \<times> nat) list \<Rightarrow> (rat option \<times> nat) list" where
  "sort_values_rating gs = foldr insert_by_rating gs []"

definition rating_counts :: "review list \<Rightarrow> (rat option \<times> nat) list" where
  "rating_counts f = sort_values_rating (groupby_size (map rating f))"

subsection \<open>The monthly trend\<close>

definition ns_per_day :: int where
  "ns_per_day = 86400000000000"

text \<open>The proleptic Gregorian calendar: year, month and day of a count of days since
  1970-01-01.\<close>

definition civil_from_days :: "int \<Rightarrow> int \<times> int \<times> int" where
  "civil_from_days z0 =
     (let z = z0 + 719468;
          era = z div 146097;
          doe = z - era * 146097;
          yoe = (doe - doe div 1460 + doe div 36524 - doe div 146096) div 365;
          doy = doe - (365 * yoe + yoe div 4 - yoe div 100);
          mp = (5 * doy + 2) div 153;
          d = doy - (153 * mp + 2) div 5 + 1;
          m = (if mp < 10 then mp + 3 else mp - 9);
          y = yoe + era * 400
      in (if m \<le> 2 then y + 1 else y, m, d))"

text \<open>Months are numbered through the years: \<open>12 * year + (month - 1)\<close>.\<close>

definition month_number :: "int \<Rightarrow> int" where
  "month_number t = (case civil_from_days (t div ns_per_day) of (y, m, d) \<Rightarrow> 12 * y + (m - 1))"

definition dropna_published_date :: "review list \<Rightarrow> review list" where
  "dropna_published_date f = filter (\<lambda>r. published_date r \<noteq> None) f"

text \<open>\<^verbatim>\<open>.resample("M").size()\<close> over a datetime index: no bin for an empty index;
  otherwise one bin for every calendar month from the month of the earliest index value to
  the month of the latest, each with the number of index values in that month, also when
  that number is 0.\<close>

definition resample_M_size :: "int list \<Rightarrow> (int \<times> nat) list" where
  "resample_M_size idx =
     (case idx of
        [] \<Rightarrow> []
      | t # ts \<Rightarrow>
          map (\<lambda>m. (m, length (filter (\<lambda>u. month_number u = m) idx)))
            [month_number (fold min ts t) .. month_number (fold max ts t)])"

definition trend :: "review list \<Rightarrow> (int \<times> nat) list" where
  "trend f =
     resample_M_size (map ns (dropna_series (map published_date (dropna_published_date f))))"

section \<open>The script\<close>

text \<open>
  The values the sidebar widgets return are the input of a run: the two dates (calendar
  dates, counted in days since 1970-01-01), the selected platforms and review types, and
  the rating range of the slider.
\<close>

record controls =
  start_date_input :: int
  end_date_input :: int
  selected_platforms :: "string list"
  selected_types :: "string list"
  rating_range :: "int \<times> int"

text \<open>What a run puts on the page, in order. The list holds the elements the properties
  below are about; the median card, the platform chart, the sample table and the word
  clouds are left out.\<close>

datatype element =
    Title string
  | Markdown string
  | Header string
  | Widget string
  | Caption string
  | Banner "(nat \<times> rat option \<times> rat \<times> rat) option"
  | Metric string shown
  | Rating_chart "(rat option \<times> nat) list"
  | Trend_chart "(int \<times> nat) list"

text \<open>\<^verbatim>\<open>pd.to_datetime\<close> of a calendar date: midnight of that day, timezone-naive.\<close>

definition to_datetime_date :: "int \<Rightarrow> timestamp" where
  "to_datetime_date d = \<lparr>ns = d * ns_per_day, tz = None\<rparr>"

text \<open>Lines 79 to 83: the two dates, swapped under a caption when they come in the wrong
  order.\<close>

definition effective_dates :: "int \<Rightarrow> int \<Rightarrow> timestamp \<times> timestamp \<times> element list" where
  "effective_dates start_input end_input =
     (let start_date = to_datetime_date start_input;
          end_date = to_datetime_date end_input
      in if ns start_date > ns end_date
         then (end_date, start_date, [Caption ''Swapped dates so Start is before End.''])
         else (start_date, end_date, []))"

definition selection :: "review list \<Rightarrow> controls \<Rightarrow> review list \<times> element list" where
  "selection data ui =
     (case effective_dates (start_date_input ui) (end_date_input ui) of
        (start_date, end_date, notices) \<Rightarrow>
          (filtered data start_date end_date (selected_platforms ui) (selected_types ui)
             (rating_range ui),
           notices))"

definition dashboard :: "review list \<Rightarrow> controls \<Rightarrow> element list" where
  "dashboard data ui =
     (case selection data ui of
        (f, notices) \<Rightarrow>
          notices @
          [Banner (if total_reviews f \<noteq> 0
                   then Some (total_reviews f, avg_rating f, positive_share f, negative_share f)
                   else None),
           Metric ''Reviews'' (Count (total_reviews f)),
           Metric ''Average rating'' (average_rating_metric f),
           Rating_chart (rating_counts f),
           Trend_chart (trend f)])"

text \<open>Python's \<^verbatim>\<open>int\<close> of a number truncates towards zero.\<close>

definition py_int :: "rat \<Rightarrow> int" where
  "py_int x = (if 0 \<le> x then \<lfloor>x\<rfloor> else \<lceil>x\<rceil>)"

text \<open>The sidebar reads the bounds of its widgets off the data: \<^verbatim>\<open>min_date.date()\<close> raises
  on NaT when no row has a date, \<^verbatim>\<open>int(data["rating"].min())\<close> raises on NaN when no row
  has a rating, and the slider raises when its two bounds, the truncated least and
  greatest rating, are equal.\<close>

definition sidebar :: "review list \<Rightarrow> element list \<times> exc option" where
  "sidebar data =
     (if dropna_series (map published_date data) = []
      then ([Header ''Filters''], Some ValueError)
      else
        (case dropna_series (map rating data) of
           [] \<Rightarrow>
             ([Header ''Filters'', Widget ''Start date'', Widget ''End date'', Widget ''Platform'',
               Widget ''Review type''], Some ValueError)
         | x # xs \<Rightarrow>
             if py_int (fold min xs x) = py_int (fold max xs x)
             then ([Header ''Filters'', Widget ''Start date'', Widget ''End date'',
                    Widget ''Platform'', Widget ''Review type''], Some StreamlitAPIException)
             else ([Header ''Filters'', Widget ''Start date'', Widget ''End date'',
                    Widget ''Platform'', Widget ''Review type'', Widget ''Rating range''], None)))"

definition DATA_PATH :: string where
  "DATA_PATH = ''data/singapore_airlines_reviews.csv''"

text \<open>A run of the script: the elements rendered, and the exception that ended the run if
  one was raised. No line of the script catches an exception.\<close>

definition app :: "pandas \<Rightarrow> filesystem \<Rightarrow> controls \<Rightarrow> element list \<times> exc option" where
  "app pd fs ui =
     (let top = [Title ''SIA Review Pulse'',
                 Markdown ''Explore Singapore Airlines reviews with filters, summary stats, and trends.'']
      in case load_reviews pd fs DATA_PATH of
           Inl e \<Rightarrow> (top, Some e)
         | Inr data \<Rightarrow>
             (case sidebar data of
                (side, Some e) \<Rightarrow> (top @ side, Some e)
              | (side, None) \<Rightarrow> (top @ side @ dashboard data ui, None)))"

section \<open>Reference definitions and example inputs\<close>

text \<open>A review of the given day (at noon), rating and platform.\<close>

definition example_review :: "int \<Rightarrow> rat option \<Rightarrow> string \<Rightarrow> review" where
  "example_review day r p =
     \<lparr>published_date = Some \<lparr>ns = day * ns_per_day + 43200000000000, tz = None\<rparr>,
      rating = r, helpful_votes = Some 0, published_platform = Some p,
      review_type = Some ''review'', title = None, review_text = None\<rparr>"

text \<open>The scenario of the specification: ratings 5, 1 and missing on the platforms Web, App
  and Web, dated 10 to 12 January 2024 (days 19732 to 19734), filtered over January 2024
  with the rating range 1 to 5 and every platform selected.\<close>

definition scenario_reviews :: "review list" where
  "scenario_reviews =
     [example_review 19732 (Some 5) ''Web'', example_review 19733 (Some 1) ''App'',
      example_review 19734 None ''Web'']"

definition scenario_filtered :: "review list" where
  "scenario_filtered =
     filtered scenario_reviews (to_datetime_date 19723) (to_datetime_date 19753)
       [''App'', ''Web''] [''review''] (1, 5)"

text \<open>Two reviews, of 10 January 2024 and of 15 March 2024 (day 19797), filtered over the
  first quarter of 2024. January 2024 is month 24288, March 2024 month 24290.\<close>

definition gap_reviews :: "review list" where
  "gap_reviews = [example_review 19732 (Some 5) ''Web'', example_review 19797 (Some 1) ''App'']"

definition gap_filtered :: "review list" where
  "gap_filtered =
     filtered gap_reviews (to_datetime_date 19723) (to_datetime_date 19813)
       [''App'', ''Web''] [''review''] (1, 5)"

text \<open>Eleven reviews of January 2024, two rated 5 and nine rated 1, filtered over January
  2024 with every platform and the rating range 1 to 5.\<close>

definition eleven_reviews :: "review list" where
  "eleven_reviews =
     replicate 2 (example_review 19732 (Some 5) ''Web'') @
     replicate 9 (example_review 19733 (Some 1) ''App'')"

definition eleven_filtered :: "review list" where
  "eleven_filtered =
     filtered eleven_reviews (to_datetime_date 19723) (to_datetime_date 19753)
       [''App'', ''Web''] [''review''] (1, 5)"


text \<open>The nanosecond counts of the dates present in a subset, and the number of its rows
  dated in a given month.\<close>

definition published_ns :: "review list \<Rightarrow> int list" where
  "published_ns f = map ns (dropna_series (map published_date f))"

definition rows_in_month :: "review list \<Rightarrow> int \<Rightarrow> nat" where
  "rows_in_month f m =
     length (filter (\<lambda>r. case published_date r of None \<Rightarrow> False
                          | Some t \<Rightarrow> month_number (ns t) = m) f)"

text \<open>The controls of the scenario with the two dates entered in the wrong order.\<close>

definition late_first_controls :: controls where
  "late_first_controls =
     \<lparr>start_date_input = 19753, end_date_input = 19723,
      selected_platforms = [''App'', ''Web''], selected_types = [''review''],
      rating_range = (1, 5)\<rparr>"

text \<open>Normalisation as the specification words it, row by row: a date that is missing or
  does not parse is null, a parsed date is brought to UTC and loses its zone marker; a
  number that does not parse is null; missing helpful votes are 0; a missing platform or
  type is the text \<^verbatim>\<open>Unknown\<close>.\<close>

definition normalise_row :: "pandas \<Rightarrow> raw_review \<Rightarrow> review" where
  "normalise_row pd r =
     \<lparr>published_date =
        (case raw_published_date r of
           None \<Rightarrow> None
         | Some s \<Rightarrow>
             (case parse_datetime pd s of
                None \<Rightarrow> None
              | Some (wall, offset) \<Rightarrow>
                  Some \<lparr>ns = wall - (case offset of None \<Rightarrow> 0 | Some d \<Rightarrow> d), tz = None\<rparr>)),
      rating = (case raw_rating r of None \<Rightarrow> None | Some s \<Rightarrow> parse_numeric pd s),
      helpful_votes =
        Some (case (case raw_helpful_votes r of None \<Rightarrow> None | Some s \<Rightarrow> parse_numeric pd s) of
                None \<Rightarrow> 0 | Some v \<Rightarrow> v),
      published_platform =
        Some (case raw_published_platform r of None \<Rightarrow> ''Unknown'' | Some p \<Rightarrow> p),
      review_type = Some (case raw_type r of None \<Rightarrow> ''Unknown'' | Some t \<Rightarrow> t),
      title = raw_title r,
      review_text = raw_text r\<rparr>"

text \<open>The invariant of a normalised row.\<close>

definition normalised :: "review \<Rightarrow> bool" where
  "normalised r =
     ((case published_date r of None \<Rightarrow> True | Some t \<Rightarrow> tz t = None) \<and>
      helpful_votes r \<noteq> None \<and> published_platform r \<noteq> None \<and> review_type r \<noteq> None)"

text \<open>A table of two rows and parsers that read it: the first date is 2024-01-10 20:00 at
  UTC+8, the second date and the second rating do not parse.\<close>

definition example_rows :: "raw_review list" where
  "example_rows =
     [\<lparr>raw_published_date = Some ''2024-01-10T20:00:00+08:00'', raw_rating = Some ''5'',
       raw_helpful_votes = None, raw_published_platform = None, raw_type = Some ''review'',
       raw_title = Some ''Great'', raw_text = None\<rparr>,
      \<lparr>raw_published_date = Some ''yesterday'', raw_rating = Some ''five'',
       raw_helpful_votes = Some ''many'', raw_published_platform = Some ''Web'', raw_type = None,
       raw_title = None, raw_text = Some ''Late''\<rparr>]"

definition example_pandas :: pandas where
  "example_pandas =
     \<lparr>parse_table = (\<lambda>s. if s = ''reviews'' then Inr example_rows else Inl ParserError),
      parse_datetime =
        (\<lambda>s. if s = ''2024-01-10T20:00:00+08:00''
              then Some (19732 * ns_per_day + 72000000000000, Some 28800000000000)
              else None),
      parse_numeric = (\<lambda>s. if s = ''5'' then Some 5 else None)\<rparr>"

section \<open>Properties of the filter\<close>

lemma getitem_map: "getitem df (map P df) = filter P df"
  by (induction df) (simp_all add: getitem_def)

lemma and_mask_map: "and_mask (map P xs) (map Q xs) = map (\<lambda>x. P x \<and> Q x) xs"
  by (induction xs) (simp_all add: and_mask_def)

lemma filtered_filter:
  "filtered data s e ps ts rr = filter (\<lambda>r. satisfies_all r s e ps ts rr) data"
proof -
  have "filtered data s e ps ts rr =
      filter (\<lambda>r. ((((case published_date r of None \<Rightarrow> False | Some d \<Rightarrow> ns d \<ge> ns s) \<and>
                     (case published_date r of None \<Rightarrow> False | Some d \<Rightarrow> ns d \<le> ns e)) \<and>
                    (case published_platform r of None \<Rightarrow> False | Some v \<Rightarrow> v \<in> set ps)) \<and>
                   (case review_type r of None \<Rightarrow> False | Some v \<Rightarrow> v \<in> set ts)) \<and>
                  (case rating r of None \<Rightarrow> False
                   | Some x \<Rightarrow> of_int (fst rr) \<le> x \<and> x \<le> of_int (snd rr))) data"
    by (simp add: filtered_def ge_scalar_def le_scalar_def isin_def between_series_def
        and_mask_map getitem_map comp_def)
  also have "\<dots> = filter (\<lambda>r. satisfies_all r s e ps ts rr) data"
    by (rule filter_cong) (auto simp: satisfies_all_def split: option.splits)
  finally show ?thesis .
qed

text \<open>
  C3. The masks of the script, combined with \<^verbatim>\<open>&\<close> and used as a row selector, keep
  exactly the rows that pass all four tests, in their order and as often as they occur:
  the date within the inclusive range, the platform and the type among the selected
  ones, the rating within the inclusive range; a row with a missing rating (or date)
  fails.
\<close>

theorem filtered_is_conjunction:
  "filtered data start_date end_date platforms types rng =
     filter (\<lambda>r. satisfies_all r start_date end_date platforms types rng) data"
  by (rule filtered_filter)

section \<open>Rounding to a double\<close>

lemma round_half_even_le: "of_int (round_half_even q) \<le> q + 1 / 2"
proof -
  define n where "n = \<lfloor>q\<rfloor>"
  define r where "r = q - of_int n"
  have q: "q = of_int n + r" by (simp add: r_def)
  have r: "0 \<le> r" unfolding r_def n_def by linarith
  have eq: "round_half_even q =
      (if r < 1 / 2 then n else if 1 / 2 < r then n + 1 else if even n then n else n + 1)"
    by (simp only: round_half_even_def Let_def n_def r_def)
  consider "r < 1 / 2" | "1 / 2 < r" | "r = 1 / 2" by linarith
  then show ?thesis
  proof cases
    case 1
    then have "round_half_even q = n" by (simp add: eq)
    with r q show ?thesis by simp
  next
    case 2
    then have "round_half_even q = n + 1" by (simp add: eq)
    with 2 q show ?thesis by simp
  next
    case 3
    then have "round_half_even q = n \<or> round_half_even q = n + 1" by (simp add: eq)
    with 3 q show ?thesis by auto
  qed
qed

lemma round_half_even_nonneg: "0 \<le> q \<Longrightarrow> 0 \<le> round_half_even q"
  by (auto simp: round_half_even_def Let_def)

lemma binary_exponent_le:
  assumes "0 < x"
  shows "2 powi binary_exponent x \<le> x"
proof -
  obtain a b where q: "quotient_of x = (a, b)"
    by (cases "quotient_of x")
  then have b: "0 < b" and x: "x = of_int a / of_int b"
    using quotient_of_denom_pos quotient_of_div by blast+
  with assms have a: "0 < a"
    by (simp add: zero_less_divide_iff)
  let ?k = "bitlen a - bitlen b"
  have la: "(2::rat) powi (bitlen a - 1) \<le> of_int a"
  proof -
    have "2 ^ nat (bitlen a - 1) \<le> a" using bitlen_bounds [OF a] by simp
    then have "(of_int (2 ^ nat (bitlen a - 1)) :: rat) \<le> of_int a"
      by (simp only: of_int_le_iff)
    moreover have "0 \<le> bitlen a - 1"
      using a by (simp add: bitlen_alt_def)
    ultimately show ?thesis by (simp add: power_int_def)
  qed
  have lb: "of_int b \<le> (2::rat) powi bitlen b"
  proof -
    have "b < 2 ^ nat (bitlen b)" using bitlen_bounds [OF b] by simp
    then have "(of_int b :: rat) < of_int (2 ^ nat (bitlen b))"
      by (simp only: of_int_less_iff)
    then show ?thesis using bitlen_nonneg [of b] by (simp add: power_int_def)
  qed
  have "(2::rat) powi (?k - 1) = 2 powi (bitlen a - 1) / 2 powi bitlen b"
    by (simp add: power_int_diff)
  also have "\<dots> \<le> of_int a / 2 powi bitlen b"
    using la by (simp add: divide_right_mono)
  also have "\<dots> \<le> of_int a / of_int b"
    using lb a b by (simp add: divide_left_mono)
  finally have low: "(2::rat) powi (?k - 1) \<le> x"
    using x by simp
  show ?thesis
    using low by (simp add: binary_exponent_def q Let_def)
qed

lemma float64_nonneg: "0 \<le> x \<Longrightarrow> 0 \<le> float64 x"
  by (simp add: float64_def Let_def round_half_even_nonneg)

lemma float64_upper:
  assumes "0 \<le> x"
  shows "float64 x \<le> x * (1 + 1 / 2 ^ 53)"
proof (cases "x = 0")
  case True
  then show ?thesis by (simp add: float64_def)
next
  case False
  with assms have pos: "0 < x" by simp
  define e where "e = binary_exponent x"
  define u :: rat where "u = 2 powi (e - 52)"
  have u: "0 < u" by (simp add: u_def)
  have "u / 2 = 2 powi e / 2 ^ 53"
    by (simp add: u_def power_int_diff)
  also have "\<dots> \<le> x / 2 ^ 53"
    using binary_exponent_le [OF pos] by (simp add: e_def divide_right_mono)
  finally have half: "u / 2 \<le> x / 2 ^ 53" .
  have "float64 x = of_int (round_half_even (x / u)) * u"
    using pos False by (simp add: float64_def Let_def u_def e_def)
  also have "\<dots> \<le> (x / u + 1 / 2) * u"
    using round_half_even_le [of "x / u"] u by (simp only: mult_right_mono less_imp_le)
  also have "\<dots> = x + u / 2"
    using u by (simp add: distrib_right)
  also have "\<dots> \<le> x + x / 2 ^ 53"
    using half by simp
  also have "\<dots> = x * (1 + 1 / 2 ^ 53)"
    by (simp add: distrib_left)
  finally show ?thesis .
qed

lemma float64_share_upper:
  assumes "0 \<le> q"
  shows "float64 (float64 q * 100) \<le> q * 100 * (1 + 1 / 2 ^ 53)\<^sup>2"
proof -
  have nn: "0 \<le> float64 q * 100"
    using float64_nonneg [OF assms] by simp
  have "float64 (float64 q * 100) \<le> float64 q * 100 * (1 + 1 / 2 ^ 53)"
    by (rule float64_upper [OF nn])
  also have "\<dots> \<le> (q * (1 + 1 / 2 ^ 53)) * 100 * (1 + 1 / 2 ^ 53)"
    using float64_upper [OF assms] by (simp add: mult_right_mono)
  also have "\<dots> = q * 100 * (1 + 1 / 2 ^ 53)\<^sup>2"
    by (simp add: power2_eq_square)
  finally show ?thesis .
qed

lemma float64_half: "float64 (1 / 2) = 1 / 2"
  by code_simp

lemma float64_50: "float64 50 = 50"
  by code_simp

section \<open>The scenario of three reviews\<close>

lemma scenario_filtered_eq:
  "scenario_filtered = [example_review 19732 (Some 5) ''Web'', example_review 19733 (Some 1) ''App'']"
  by (simp add: scenario_filtered_def scenario_reviews_def filtered_filter satisfies_all_def
      example_review_def to_datetime_date_def ns_per_day_def)

text \<open>
  C1, as stated, fails: on the scenario the filter drops the review with the missing
  rating, so the count is not 3, the shares are not one third and the histogram has no
  bucket for the missing rating.
\<close>

theorem scenario_counterexample:
  "total_reviews scenario_filtered \<noteq> 3 \<and> positive_share scenario_filtered \<noteq> 100 / 3 \<and>
   negative_share scenario_filtered \<noteq> 100 / 3 \<and>
   rating_counts scenario_filtered \<noteq> [(Some 1, 1), (Some 5, 1), (None, 1)]"
  by (simp add: scenario_filtered_eq total_reviews_def positive_share_def negative_share_def
      rating_counts_def groupby_size_def sort_values_rating_def getitem_def isin_def
      example_review_def float64_half float64_50)

text \<open>
  C1, amended. For three reviews with ratings 5, 1 and missing on the platforms Web, App
  and Web, the rating range 1 to 5 and both platforms selected, where the two rated
  reviews pass the date and type tests: the filtered subset is the two rated reviews, so
  the count is 2, the average rating 3, the positive and the negative share 50 percent
  each, and the histogram has the buckets 1 and 5 with one review each and no bucket for
  the missing rating.
\<close>

theorem scenario_counts:
  assumes "rating r1 = Some 5" and "rating r2 = Some 1" and "rating r3 = None"
    and "published_platform r1 = Some ''Web''" and "published_platform r2 = Some ''App''"
    and "published_platform r3 = Some ''Web''"
    and "''Web'' \<in> set platforms" and "''App'' \<in> set platforms"
    and "satisfies_all r1 s e platforms types (1, 5)"
    and "satisfies_all r2 s e platforms types (1, 5)"
  shows "filtered [r1, r2, r3] s e platforms types (1, 5) = [r1, r2] \<and>
         total_reviews [r1, r2] = 2 \<and> avg_rating [r1, r2] = Some 3 \<and>
         positive_share [r1, r2] = 50 \<and> negative_share [r1, r2] = 50 \<and>
         rating_counts [r1, r2] = [(Some 1, 1), (Some 5, 1)]"
proof -
  have "\<not> satisfies_all r3 s e platforms types (1, 5)"
    using assms(3) by (simp add: satisfies_all_def)
  then have "filtered [r1, r2, r3] s e platforms types (1, 5) = [r1, r2]"
    using assms(9,10) by (simp add: filtered_filter)
  moreover have "total_reviews [r1, r2] = 2" by (simp add: total_reviews_def)
  moreover have "avg_rating [r1, r2] = Some 3"
    using assms(1,2) by (simp add: avg_rating_def mean_def count_series_def sum_series_def)
  moreover have "positive_share [r1, r2] = 50"
    using assms(1,2)
    by (simp add: positive_share_def total_reviews_def getitem_def isin_def float64_half float64_50)
  moreover have "negative_share [r1, r2] = 50"
    using assms(1,2)
    by (simp add: negative_share_def total_reviews_def getitem_def isin_def float64_half float64_50)
  moreover have "rating_counts [r1, r2] = [(Some 1, 1), (Some 5, 1)]"
    using assms(1,2) by (simp add: rating_counts_def groupby_size_def sort_values_rating_def)
  ultimately show ?thesis by simp
qed

theorem scenario_counts_witness:
  "filtered scenario_reviews (to_datetime_date 19723) (to_datetime_date 19753)
     [''App'', ''Web''] [''review''] (1, 5) =
     [example_review 19732 (Some 5) ''Web'', example_review 19733 (Some 1) ''App''] \<and>
   total_reviews [example_review 19732 (Some 5) ''Web'', example_review 19733 (Some 1) ''App''] = 2 \<and>
   avg_rating [example_review 19732 (Some 5) ''Web'', example_review 19733 (Some 1) ''App''] = Some 3 \<and>
   positive_share [example_review 19732 (Some 5) ''Web'', example_review 19733 (Some 1) ''App''] = 50 \<and>
   negative_share [example_review 19732 (Some 5) ''Web'', example_review 19733 (Some 1) ''App''] = 50 \<and>
   rating_counts [example_review 19732 (Some 5) ''Web'', example_review 19733 (Some 1) ''App''] =
     [(Some 1, 1), (Some 5, 1)]"
proof -
  have r: "rating (example_review 19732 (Some 5) ''Web'') = Some 5"
    "rating (example_review 19733 (Some 1) ''App'') = Some 1"
    "rating (example_review 19734 None ''Web'') = None"
    by (simp_all add: example_review_def)
  have p: "published_platform (example_review 19732 (Some 5) ''Web'') = Some ''Web''"
    "published_platform (example_review 19733 (Some 1) ''App'') = Some ''App''"
    "published_platform (example_review 19734 None ''Web'') = Some ''Web''"
    by (simp_all add: example_review_def)
  have m: "''Web'' \<in> set [''App'', ''Web'']" "''App'' \<in> set [''App'', ''Web'']"
    by simp_all
  have s: "satisfies_all (example_review 19732 (Some 5) ''Web'') (to_datetime_date 19723)
             (to_datetime_date 19753) [''App'', ''Web''] [''review''] (1, 5)"
    "satisfies_all (example_review 19733 (Some 1) ''App'') (to_datetime_date 19723)
             (to_datetime_date 19753) [''App'', ''Web''] [''review''] (1, 5)"
    by (simp_all add: satisfies_all_def example_review_def to_datetime_date_def ns_per_day_def)
  show ?thesis
    unfolding scenario_reviews_def
    by (rule scenario_counts [OF r p m s])
qed

section \<open>Rows of a filtered subset\<close>

lemma filtered_rating: "r \<in> set (filtered data s e ps ts rr) \<Longrightarrow> rating r \<noteq> None"
  by (auto simp: filtered_filter satisfies_all_def split: option.splits)

lemma filtered_date: "r \<in> set (filtered data s e ps ts rr) \<Longrightarrow> published_date r \<noteq> None"
  by (auto simp: filtered_filter satisfies_all_def split: option.splits)

lemma mem_dropna_series: "x \<in> set (dropna_series col) \<longleftrightarrow> Some x \<in> set col"
  by (induction col rule: dropna_series.induct) auto

lemma Some_dropna_series:
  "Some ` set (dropna_series col) \<union> (if None \<in> set col then {None} else {}) = set col"
proof (rule set_eqI)
  fix c :: "'a option"
  show "c \<in> Some ` set (dropna_series col) \<union> (if None \<in> set col then {None} else {})
        \<longleftrightarrow> c \<in> set col"
    by (cases c) (auto simp: mem_dropna_series)
qed

lemma set_insert_by_rating: "set (insert_by_rating g hs) = insert g (set hs)"
  by (induction hs) auto

lemma set_sort_values_rating: "set (sort_values_rating gs) = set gs"
  by (induction gs) (simp_all add: sort_values_rating_def set_insert_by_rating)

lemma keys_groupby_size: "fst ` set (groupby_size col) = set col"
proof -
  have "fst ` set (groupby_size col) =
      Some ` set (dropna_series col) \<union> (if None \<in> set col then {None} else {})"
    by (auto simp: groupby_size_def image_iff)
  then show ?thesis by (simp only: Some_dropna_series)
qed

lemma keys_rating_counts: "fst ` set (rating_counts f) = rating ` set f"
  by (simp add: rating_counts_def set_sort_values_rating keys_groupby_size)

lemma count_series_dropna: "count_series col = length (dropna_series col)"
  by (induction col rule: dropna_series.induct) (simp_all add: count_series_def)



lemma dropna_series_all: "None \<notin> set col \<Longrightarrow> length (dropna_series col) = length col"
  by (induction col rule: dropna_series.induct) simp_all

text \<open>
  C9. Every row of a filtered subset has a rating, so the rating histogram of the subset
  has no bucket for the missing rating, and the average rating of a subset that is not
  empty is a number.
\<close>

theorem filtered_ratings_present:
  "(\<forall>r \<in> set (filtered data s e ps ts rng). rating r \<noteq> None) \<and>
   None \<notin> fst ` set (rating_counts (filtered data s e ps ts rng)) \<and>
   (filtered data s e ps ts rng \<noteq> [] \<longrightarrow> avg_rating (filtered data s e ps ts rng) \<noteq> None)"
proof -
  let ?f = "filtered data s e ps ts rng"
  have a: "\<forall>r \<in> set ?f. rating r \<noteq> None"
    using filtered_rating by blast
  then have n: "None \<notin> set (map rating ?f)"
    by (metis (no_types, lifting) image_iff list.set_map)
  have b: "None \<notin> fst ` set (rating_counts ?f)"
    using n by (simp add: keys_rating_counts)
  have c: "avg_rating ?f \<noteq> None" if "?f \<noteq> []"
    using that dropna_series_all [OF n]
    by (simp add: avg_rating_def mean_def count_series_dropna)
  from a b c show ?thesis by blast
qed

theorem filtered_ratings_present_witness:
  "rating (example_review 19732 (Some 5) ''Web'') \<noteq> None \<and>
   None \<notin> fst ` set (rating_counts scenario_filtered) \<and>
   scenario_filtered \<noteq> [] \<and> avg_rating scenario_filtered \<noteq> None"
proof -
  note t = filtered_ratings_present [of scenario_reviews "to_datetime_date 19723"
      "to_datetime_date 19753" "[''App'', ''Web'']" "[''review'']" "(1, 5)",
      folded scenario_filtered_def]
  have ne: "scenario_filtered \<noteq> []"
    by (simp add: scenario_filtered_eq)
  have mem: "example_review 19732 (Some 5) ''Web'' \<in> set scenario_filtered"
    by (simp add: scenario_filtered_eq)
  from t ne mem show ?thesis by blast
qed

text \<open>
  C10. Every row of a filtered subset has a date: a missing date fails both date
  comparisons. So dropping the rows without a date before the monthly trend removes
  nothing.
\<close>

theorem filtered_dates_present:
  "(\<forall>r \<in> set (filtered data s e ps ts rng). published_date r \<noteq> None) \<and>
   dropna_published_date (filtered data s e ps ts rng) = filtered data s e ps ts rng"
proof -
  have a: "\<forall>r \<in> set (filtered data s e ps ts rng). published_date r \<noteq> None"
    using filtered_date by blast
  then show ?thesis
    by (simp add: dropna_published_date_def)
qed

theorem filtered_dates_present_witness:
  "published_date (example_review 19733 (Some 1) ''App'') \<noteq> None \<and>
   dropna_published_date scenario_filtered = scenario_filtered"
proof -
  note t = filtered_dates_present [of scenario_reviews "to_datetime_date 19723"
      "to_datetime_date 19753" "[''App'', ''Web'']" "[''review'']" "(1, 5)",
      folded scenario_filtered_def]
  have mem: "example_review 19733 (Some 1) ''App'' \<in> set scenario_filtered"
    by (simp add: scenario_filtered_eq)
  from t mem show ?thesis by blast
qed

section \<open>The summary figures\<close>


lemma disjoint_filters:
  assumes "\<And>x. \<not> (P x \<and> Q x)"
  shows "length (filter P xs) + length (filter Q xs) \<le> length xs"
  using assms by (induction xs) auto

lemma share_counts:
  "length (getitem f (isin (map rating f) [4, 5])) + length (getitem f (isin (map rating f) [1, 2]))
   \<le> length f"
proof -
  have "getitem f (isin (map rating f) vs) =
        filter (\<lambda>r. case rating r of None \<Rightarrow> False | Some v \<Rightarrow> v \<in> set vs) f" for vs
    by (simp add: isin_def getitem_map comp_def)
  then show ?thesis
    by (simp only:) (rule disjoint_filters, auto split: option.splits)
qed

lemma share_sum_bound:
  fixes a b n :: rat
  assumes "0 < n" and "a + b \<le> n"
  shows "a / n * 100 + b / n * 100 \<le> 100"
proof -
  have "(a + b) * 100 \<le> 100 * n"
    using assms(2) by simp
  then have "(a + b) * 100 / n \<le> 100"
    using assms(1) by (simp only: pos_divide_le_eq)
  moreover have "a / n * 100 + b / n * 100 = (a + b) * 100 / n"
    by (simp add: add_divide_distrib distrib_right)
  ultimately show ?thesis by (simp only:)
qed

lemma eleven_counts:
  "total_reviews eleven_filtered = 11"
  "length (getitem eleven_filtered (isin (map rating eleven_filtered) [4, 5])) = 2"
  "length (getitem eleven_filtered (isin (map rating eleven_filtered) [1, 2])) = 9"
  by code_simp+

lemma eleven_shares:
  "float64 (float64 (2 / 11) * 100) = 5117726849284655 / 281474976710656"
  "float64 (float64 (9 / 11) * 100) = 5757442705445237 / 70368744177664"
  "float64 (5117726849284655 / 281474976710656 + 5757442705445237 / 70368744177664) =
     7036874417766401 / 70368744177664"
  by code_simp+

text \<open>
  C6, as stated, fails. Of eleven filtered reviews two are positive and nine negative;
  the script's shares are the doubles 18.181818181818183 and 81.81818181818183, whose sum
  is above 100, and so is the sum rounded to a double, 100.00000000000001.
\<close>

theorem shares_rounding_counterexample:
  "positive_share eleven_filtered = 5117726849284655 / 281474976710656 \<and>
   negative_share eleven_filtered = 5757442705445237 / 70368744177664 \<and>
   100 < positive_share eleven_filtered + negative_share eleven_filtered \<and>
   100 < float64 (positive_share eleven_filtered + negative_share eleven_filtered)"
proof -
  have p: "positive_share eleven_filtered = 5117726849284655 / 281474976710656"
    by (simp add: positive_share_def eleven_counts eleven_shares)
  have n: "negative_share eleven_filtered = 5757442705445237 / 70368744177664"
    by (simp add: negative_share_def eleven_counts eleven_shares)
  show ?thesis
    unfolding p n eleven_shares(3) by simp
qed

text \<open>
  C6, amended. In every subset the rows rated 4 or 5 and the rows rated 1 or 2 together
  are at most all its rows, since no rating is in both sets. So the two shares add up to
  at most 100 up to the rounding of the two double precision computations: their sum is
  at most 100 times the square of \<open>1 + 1 / 2 ^ 53\<close>. For the empty subset both are
  exactly 0.
\<close>

theorem shares_within_rounding:
  "length (getitem f (isin (map rating f) [4, 5])) + length (getitem f (isin (map rating f) [1, 2]))
     \<le> total_reviews f \<and>
   positive_share f + negative_share f \<le> 100 * (1 + 1 / 2 ^ 53)\<^sup>2 \<and>
   positive_share [] = 0 \<and> negative_share [] = 0"
proof -
  let ?p = "length (getitem f (isin (map rating f) [4, 5]))"
  let ?q = "length (getitem f (isin (map rating f) [1, 2]))"
  let ?c = "(1 + 1 / 2 ^ 53 :: rat)\<^sup>2"
  have counts: "?p + ?q \<le> total_reviews f"
    using share_counts [of f] by (simp add: total_reviews_def)
  have "positive_share f + negative_share f \<le> 100 * ?c"
  proof (cases "f = []")
    case True
    then show ?thesis by (simp add: positive_share_def negative_share_def total_reviews_def)
  next
    case False
    then have n: "0 < (of_nat (length f) :: rat)" by simp
    let ?a = "(of_nat ?p :: rat) / of_nat (length f)"
    let ?b = "(of_nat ?q :: rat) / of_nat (length f)"
    have le: "(of_nat ?p + of_nat ?q :: rat) \<le> of_nat (length f)"
      using share_counts [of f] by (metis of_nat_add of_nat_le_iff)
    have "positive_share f = float64 (float64 ?a * 100)"
      "negative_share f = float64 (float64 ?b * 100)"
      using False by (simp_all add: positive_share_def negative_share_def total_reviews_def)
    moreover have "float64 (float64 ?a * 100) \<le> ?a * 100 * ?c"
      by (rule float64_share_upper) simp
    moreover have "float64 (float64 ?b * 100) \<le> ?b * 100 * ?c"
      by (rule float64_share_upper) simp
    ultimately have "positive_share f + negative_share f \<le> (?a * 100 + ?b * 100) * ?c"
      by (simp add: distrib_right)
    also have "\<dots> \<le> 100 * ?c"
      using share_sum_bound [OF n le] by (intro mult_right_mono) simp_all
    finally show ?thesis .
  qed
  with counts show ?thesis
    by (simp add: positive_share_def negative_share_def total_reviews_def)
qed

section \<open>The monthly trend\<close>

lemma published_ns_dropna: "published_ns (dropna_published_date f) = published_ns f"
proof (induction f)
  case Nil
  show ?case by (simp add: published_ns_def dropna_published_date_def)
next
  case (Cons r f)
  then show ?case
    by (cases "published_date r") (simp_all add: published_ns_def dropna_published_date_def)
qed

lemma published_ns_count:
  "length (filter (\<lambda>u. month_number u = m) (published_ns f)) = rows_in_month f m"
proof (induction f)
  case Nil
  show ?case by (simp add: published_ns_def rows_in_month_def)
next
  case (Cons r f)
  then show ?case
    by (cases "published_date r") (simp_all add: published_ns_def rows_in_month_def)
qed

lemma trend_eq:
  "trend f =
     (if published_ns f = [] then []
      else map (\<lambda>m. (m, rows_in_month f m))
             [month_number (Min (set (published_ns f))) .. month_number (Max (set (published_ns f)))])"
proof -
  have tr: "trend f = resample_M_size (published_ns f)"
    using published_ns_dropna [of f] by (simp add: trend_def published_ns_def)
  show ?thesis
  proof (cases "published_ns f")
    case Nil
    with tr show ?thesis by (simp add: resample_M_size_def)
  next
    case (Cons t ts)
    have "resample_M_size (published_ns f) =
        map (\<lambda>m. (m, length (filter (\<lambda>u. month_number u = m) (published_ns f))))
          [month_number (fold min ts t) .. month_number (fold max ts t)]"
      by (simp only: resample_M_size_def Cons list.case)
    also have "\<dots> = map (\<lambda>m. (m, rows_in_month f m))
          [month_number (Min (set (t # ts))) .. month_number (Max (set (t # ts)))]"
      by (simp only: published_ns_count Min.set_eq_fold Max.set_eq_fold)
    finally have "trend f = map (\<lambda>m. (m, rows_in_month f m))
          [month_number (Min (set (published_ns f))) .. month_number (Max (set (published_ns f)))]"
      using tr by (simp only: Cons)
    moreover have "published_ns f \<noteq> []"
      using Cons by simp
    ultimately show ?thesis by (simp only: if_False)
  qed
qed

text \<open>
  C2, amended. The monthly trend of a subset is empty when no row has a date; otherwise
  it has one entry for every calendar month from the month of the earliest date to the
  month of the latest date, in chronological order, each with the number of rows dated in
  that month. A month in between without rows is emitted with the count 0.
\<close>

theorem trend_months:
  "map fst (trend f) =
     (if published_ns f = [] then []
      else [month_number (Min (set (published_ns f))) .. month_number (Max (set (published_ns f)))]) \<and>
   map snd (trend f) = map (rows_in_month f) (map fst (trend f)) \<and>
   sorted_wrt (<) (map fst (trend f))"
proof (cases "published_ns f = []")
  case True
  then show ?thesis by (simp add: trend_eq)
next
  case False
  let ?ms = "[month_number (Min (set (published_ns f))) .. month_number (Max (set (published_ns f)))]"
  have t: "trend f = map (\<lambda>m. (m, rows_in_month f m)) ?ms"
    using False by (simp only: trend_eq if_False)
  have a: "map fst (trend f) = ?ms"
    unfolding t by (simp add: comp_def)
  have b: "map snd (trend f) = map (rows_in_month f) ?ms"
    unfolding t by (simp add: comp_def)
  have c: "sorted_wrt (<) ?ms"
    by (simp add: strict_sorted_iff)
  from a b c False show ?thesis by (simp only: if_False simp_thms)
qed

text \<open>The calendar on known days: the epoch, the day before it, and the leap day of 2024
  with the day after it.\<close>

lemma civil_from_days_examples:
  "civil_from_days 0 = (1970, 1, 1)" "civil_from_days (- 1) = (1969, 12, 31)"
  "civil_from_days 19782 = (2024, 2, 29)" "civil_from_days 19783 = (2024, 3, 1)"
  by code_simp+

lemma gap_filtered_eq: "gap_filtered = gap_reviews"
  by (simp add: gap_filtered_def gap_reviews_def filtered_filter satisfies_all_def
      example_review_def to_datetime_date_def ns_per_day_def)

lemma month_19732: "month_number (19732 * ns_per_day + 43200000000000) = 24288"
  by code_simp

lemma month_19797: "month_number (19797 * ns_per_day + 43200000000000) = 24290"
  by code_simp

text \<open>
  C2, as stated, fails. For the two reviews of January and March 2024 the trend has three
  entries: February 2024 (month 24289) is emitted with the count 0, although no row of the
  subset is dated in it.
\<close>

theorem trend_gap_counterexample:
  "trend gap_filtered = [(24288, 1), (24289, 0), (24290, 1)] \<and>
   rows_in_month gap_filtered 24289 = 0"
proof -
  have ns: "published_ns gap_reviews =
      [19732 * ns_per_day + 43200000000000, 19797 * ns_per_day + 43200000000000]"
    by (simp add: published_ns_def gap_reviews_def example_review_def)
  have lt: "19732 * ns_per_day + 43200000000000 < 19797 * ns_per_day + 43200000000000"
    by (simp add: ns_per_day_def)
  have mn: "Min (set (published_ns gap_reviews)) = 19732 * ns_per_day + 43200000000000"
    unfolding ns using lt by simp
  have mx: "Max (set (published_ns gap_reviews)) = 19797 * ns_per_day + 43200000000000"
    unfolding ns using lt by simp
  have ne: "published_ns gap_reviews \<noteq> []"
    unfolding ns by simp
  have r: "rows_in_month gap_reviews 24288 = 1" "rows_in_month gap_reviews 24289 = 0"
    "rows_in_month gap_reviews 24290 = 1"
    by (simp_all add: rows_in_month_def gap_reviews_def example_review_def month_19732 month_19797)
  have u: "[24288 .. 24290 :: int] = [24288, 24289, 24290]"
    by simp
  have "trend gap_reviews = map (\<lambda>m. (m, rows_in_month gap_reviews m)) [24288 .. 24290]"
    using ne by (simp only: trend_eq if_False mn mx month_19732 month_19797)
  then have "trend gap_reviews = [(24288, 1), (24289, 0), (24290, 1)]"
    by (simp only: u list.map r)
  with r(2) show ?thesis by (simp only: gap_filtered_eq simp_thms)
qed

section \<open>The date range\<close>

lemma ns_per_day_pos: "0 < ns_per_day"
  by (simp add: ns_per_day_def)

text \<open>
  C5. When the start date entered is after the end date, the script swaps the two: the
  effective range has its start before its end, the sidebar shows the caption that the
  dates were swapped, and the filtered subset is the one of the corrected range, row for
  row, the same as when the two dates are entered in the right order.
\<close>

theorem swapped_dates:
  assumes "start_date_input ui > end_date_input ui"
  shows "ns (fst (effective_dates (start_date_input ui) (end_date_input ui)))
           \<le> ns (fst (snd (effective_dates (start_date_input ui) (end_date_input ui)))) \<and>
         snd (selection data ui) = [Caption ''Swapped dates so Start is before End.''] \<and>
         Caption ''Swapped dates so Start is before End.'' \<in> set (dashboard data ui) \<and>
         fst (selection data ui) =
           filtered data (to_datetime_date (end_date_input ui))
             (to_datetime_date (start_date_input ui))
             (selected_platforms ui) (selected_types ui) (rating_range ui) \<and>
         fst (selection data ui) =
           fst (selection data
                 (ui\<lparr>start_date_input := end_date_input ui,
                     end_date_input := start_date_input ui\<rparr>))"
proof -
  let ?a = "start_date_input ui" and ?b = "end_date_input ui"
  have gt: "ns (to_datetime_date ?a) > ns (to_datetime_date ?b)"
    using assms ns_per_day_pos by (simp add: to_datetime_date_def)
  have e1: "effective_dates ?a ?b =
      (to_datetime_date ?b, to_datetime_date ?a, [Caption ''Swapped dates so Start is before End.''])"
    using gt by (simp add: effective_dates_def Let_def)
  have e2: "effective_dates ?b ?a = (to_datetime_date ?b, to_datetime_date ?a, [])"
    using gt by (simp add: effective_dates_def Let_def)
  show ?thesis
    using gt by (simp add: e1 e2 selection_def dashboard_def)
qed

theorem swapped_dates_witness:
  "start_date_input late_first_controls > end_date_input late_first_controls \<and>
   snd (selection scenario_reviews late_first_controls) =
     [Caption ''Swapped dates so Start is before End.''] \<and>
   fst (selection scenario_reviews late_first_controls) = scenario_filtered"
proof -
  have h: "start_date_input late_first_controls > end_date_input late_first_controls"
    by (simp add: late_first_controls_def)
  from swapped_dates [OF h, of scenario_reviews] h show ?thesis
    by (simp add: late_first_controls_def scenario_filtered_def)
qed

section \<open>Loading\<close>

lemma assign_columns_map:
  "assign_columns df (map f1 df) (map f2 df) (map f3 df) (map f4 df) (map f5 df) =
     map (\<lambda>r. \<lparr>published_date = f1 r, rating = f2 r, helpful_votes = f3 r,
                published_platform = f4 r, review_type = f5 r, title = raw_title r,
                review_text = raw_text r\<rparr>) df"
  by (induction df) simp_all

lemma to_datetime_utc_aware: "\<not> list_ex is_naive (to_datetime_utc pd col)"
  by (induction col)
    (auto simp: to_datetime_utc_def is_naive_def split: option.splits)

lemma load_reviews_rows:
  assumes "read_csv pd fs path = Inr df"
  shows "load_reviews pd fs path = Inr (map (normalise_row pd) df)"
proof -
  have dates: "tz_convert_None (to_datetime_utc pd (map raw_published_date df)) =
      Inr (map (\<lambda>r. published_date (normalise_row pd r)) df)"
    by (simp add: tz_convert_None_def to_datetime_utc_aware)
      (simp add: to_datetime_utc_def normalise_row_def split: option.splits)
  have cols: "to_numeric pd (map raw_rating df) = map (\<lambda>r. rating (normalise_row pd r)) df"
    "fillna (to_numeric pd (map raw_helpful_votes df)) 0 =
       map (\<lambda>r. helpful_votes (normalise_row pd r)) df"
    "fillna (map raw_published_platform df) ''Unknown'' =
       map (\<lambda>r. published_platform (normalise_row pd r)) df"
    "fillna (map raw_type df) ''Unknown'' = map (\<lambda>r. review_type (normalise_row pd r)) df"
    by (simp_all add: to_numeric_def fillna_def normalise_row_def split: option.splits)
  have "load_reviews pd fs path =
      Inr (map (\<lambda>r. \<lparr>published_date = published_date (normalise_row pd r),
                      rating = rating (normalise_row pd r),
                      helpful_votes = helpful_votes (normalise_row pd r),
                      published_platform = published_platform (normalise_row pd r),
                      review_type = review_type (normalise_row pd r),
                      title = raw_title r, review_text = raw_text r\<rparr>) df)"
    by (simp only: load_reviews_def assms sum.case dates cols assign_columns_map)
  also have "\<dots> = Inr (map (normalise_row pd) df)"
    by (simp add: normalise_row_def)
  finally show ?thesis .
qed

lemma normalise_row_normalised: "normalised (normalise_row pd r)"
  by (simp add: normalised_def normalise_row_def split: option.splits prod.splits)

text \<open>
  C7. Whenever the file is read, \<^verbatim>\<open>load_reviews\<close> succeeds and returns the rows
  normalised one by one (the conversion to naive timestamps never raises), and every row it
  returns has a date that is null or timezone-naive, helpful votes that are not null, and
  a platform and a type that are not null: a date that is missing or does not parse is
  null, an aware date is converted to UTC and its zone marker dropped, missing or
  unparseable helpful votes are 0, a missing platform or type is \<^verbatim>\<open>Unknown\<close>.
\<close>

theorem load_reviews_normalises:
  assumes "read_csv pd fs path = Inr df"
  shows "load_reviews pd fs path = Inr (map (normalise_row pd) df) \<and>
         (\<forall>r \<in> set (map (normalise_row pd) df). normalised r)"
  using load_reviews_rows [OF assms] by (simp add: normalise_row_normalised)

theorem load_reviews_normalises_witness:
  "read_csv example_pandas [DATA_PATH \<mapsto> ''reviews''] DATA_PATH = Inr example_rows \<and>
   load_reviews example_pandas [DATA_PATH \<mapsto> ''reviews''] DATA_PATH =
     Inr [\<lparr>published_date = Some \<lparr>ns = 19732 * ns_per_day + 43200000000000, tz = None\<rparr>,
           rating = Some 5, helpful_votes = Some 0, published_platform = Some ''Unknown'',
           review_type = Some ''review'', title = Some ''Great'', review_text = None\<rparr>,
          \<lparr>published_date = None, rating = None, helpful_votes = Some 0,
           published_platform = Some ''Web'', review_type = Some ''Unknown'', title = None,
           review_text = Some ''Late''\<rparr>] \<and>
   normalised (normalise_row example_pandas (hd example_rows))"
proof -
  have h: "read_csv example_pandas [DATA_PATH \<mapsto> ''reviews''] DATA_PATH = Inr example_rows"
    by (simp add: read_csv_def example_pandas_def)
  have m: "normalise_row example_pandas (hd example_rows) \<in>
      set (map (normalise_row example_pandas) example_rows)"
    by (simp add: example_rows_def)
  from load_reviews_normalises [OF h] h m show ?thesis
    by (simp add: example_rows_def normalise_row_def example_pandas_def)
qed

text \<open>
  C8, as stated, fails. With no file at the path, the load fails with
  \<^verbatim>\<open>FileNotFoundError\<close>, which is not a \<^verbatim>\<open>DataLoadError\<close>, and the run has already put
  the title and the introduction on the page when it ends.
\<close>

theorem load_failure_counterexample:
  "load_reviews example_pandas Map.empty DATA_PATH = Inl FileNotFoundError \<and>
   exc_name FileNotFoundError \<noteq> ''DataLoadError'' \<and>
   app example_pandas Map.empty late_first_controls =
     ([Title ''SIA Review Pulse'',
       Markdown ''Explore Singapore Airlines reviews with filters, summary stats, and trends.''],
      Some FileNotFoundError)"
  by (simp add: load_reviews_def read_csv_def app_def)

text \<open>
  C8, amended. If the dataset path does not exist, the load fails with
  \<^verbatim>\<open>FileNotFoundError\<close>; if the table cannot be parsed, it fails with the parser's
  exception. In both cases the exception goes through \<^verbatim>\<open>load_reviews\<close> and through the
  script uncaught, and the run ends with the page holding the title and the introduction,
  which are rendered before the load, and nothing else.
\<close>

theorem load_failure_propagates:
  "(fs DATA_PATH = None \<longrightarrow>
      load_reviews pd fs DATA_PATH = Inl FileNotFoundError \<and>
      app pd fs ui =
        ([Title ''SIA Review Pulse'',
          Markdown ''Explore Singapore Airlines reviews with filters, summary stats, and trends.''],
         Some FileNotFoundError)) \<and>
   (fs DATA_PATH = Some contents \<and> parse_table pd contents = Inl e \<longrightarrow>
      load_reviews pd fs DATA_PATH = Inl e \<and>
      app pd fs ui =
        ([Title ''SIA Review Pulse'',
          Markdown ''Explore Singapore Airlines reviews with filters, summary stats, and trends.''],
         Some e))"
  by (simp add: load_reviews_def read_csv_def app_def)

theorem load_failure_propagates_witness:
  "load_reviews example_pandas Map.empty DATA_PATH = Inl FileNotFoundError \<and>
   app example_pandas Map.empty late_first_controls =
     ([Title ''SIA Review Pulse'',
       Markdown ''Explore Singapore Airlines reviews with filters, summary stats, and trends.''],
      Some FileNotFoundError) \<and>
   load_reviews example_pandas [DATA_PATH \<mapsto> ''not a table''] DATA_PATH = Inl ParserError \<and>
   app example_pandas [DATA_PATH \<mapsto> ''not a table''] late_first_controls =
     ([Title ''SIA Review Pulse'',
       Markdown ''Explore Singapore Airlines reviews with filters, summary stats, and trends.''],
      Some ParserError)"
proof -
  have a: "Map.empty DATA_PATH = (None :: string option)"
    by simp
  have b: "[DATA_PATH \<mapsto> ''not a table''] DATA_PATH = Some ''not a table'' \<and>
           parse_table example_pandas ''not a table'' = Inl ParserError"
    by (simp add: example_pandas_def)
  from load_failure_propagates [of Map.empty example_pandas late_first_controls]
    load_failure_propagates [of "[DATA_PATH \<mapsto> ''not a table'']" example_pandas late_first_controls
      "''not a table''" ParserError] a b
  show ?thesis by blast
qed

end
